theory Spec2Isabelle
  imports Main
begin

section \<open>Data model\<close>

text \<open>
  The module \<^verbatim>\<open>src/index.js\<close> exports one constructor, \<^verbatim>\<open>TelegramLog\<close>, a Duplex
  stream in object mode. All of its logic lives in callbacks that close over four
  variables (\<^verbatim>\<open>_updatesOffset\<close>, \<^verbatim>\<open>webhook\<close>, \<^verbatim>\<open>polling\<close>, \<^verbatim>\<open>inFlight\<close>); the model
  keeps them in a record and makes each callback a function on that record. Everything
  a callback does to the outside world (a call of the Telegram client, of the webhook
  listener, of the stream base class, of a timer or of a completion callback) is
  appended to a trace, in the order the source performs it.

  Identifiers of updates are integers held in JavaScript numbers; \<^verbatim>\<open>>=\<close> compares them
  exactly, and \<^verbatim>\<open>+ 1\<close> is the addition of doubles of the section on numbers. A chat
  identifier is a number or a string, and \<^verbatim>\<open>!==\<close> on two such values is inequality of
  the constructors and of their contents. A message always has its \<^verbatim>\<open>chat\<close>, as the
  platform sends it.

  An \<^verbatim>\<open>error\<close> event is recorded in the trace and the callback goes on: the consumer is
  taken to listen for errors, since an event emitter throws on an \<^verbatim>\<open>error\<close> event that
  nobody listens for.
\<close>

datatype chat_ident = IdNum int | IdStr string

text \<open>A Telegram message: \<^verbatim>\<open>message.chat.id\<close> and \<^verbatim>\<open>message.text\<close> (absent or null is \<open>None\<close>).\<close>

record tg_message =
  msg_chat_id :: chat_ident
  msg_text :: "string option"

text \<open>A Telegram update: \<^verbatim>\<open>update.update_id\<close> and \<^verbatim>\<open>update.message\<close> (absent or null is \<open>None\<close>).\<close>

record tg_update =
  update_id :: int
  message :: "tg_message option"

text \<open>The object that \<^verbatim>\<open>emitError\<close> attaches to its error as \<^verbatim>\<open>error.data\<close>.\<close>

datatype error_data = DataUpdate tg_update | DataMessage tg_message

text \<open>
  Errors that reach the \<^verbatim>\<open>error\<close> event or a completion callback: the ones built by
  \<^verbatim>\<open>emitError\<close> (message and data), and the ones handed over by a collaborator.
\<close>

datatype js_error = Error string error_data | External string

text \<open>
  What \<^verbatim>\<open>processUpdate\<close> returns: the boolean of \<^verbatim>\<open>self.push\<close>, or nothing at all
  (\<^verbatim>\<open>return emitError(...)\<close>, and \<^verbatim>\<open>emitError\<close> has no return statement).
\<close>

datatype retval = RUndefined | RBool bool

fun truthy :: "retval \<Rightarrow> bool" where
  "truthy RUndefined = False"
| "truthy (RBool b) = b"

text \<open>
  Payloads written to the stream (object mode: any JavaScript value). \<open>JObj\<close> is a plain
  object, with the prototype of object literals, given by its own properties; none of
  the values is a function.
\<close>

datatype jsvalue =
    JUndefined
  | JNull
  | JBool bool
  | JNum int
  | JStr string
  | JArr "jsvalue list"
  | JObj "(string \<times> jsvalue) list"

text \<open>The string that \<^verbatim>\<open>JSON.stringify\<close> returns for a value, kept symbolic.\<close>

datatype json_text = JSON_stringify jsvalue

text \<open>The calls the source makes on its collaborators.\<close>

datatype effect =
    Push "string option"
      \<comment> \<open>\<^verbatim>\<open>self.push(chunk)\<close>; \<open>None\<close> is \<^verbatim>\<open>push(null)\<close>, the end of the data\<close>
  | EmitError js_error
      \<comment> \<open>\<^verbatim>\<open>self.emit('error', error)\<close>\<close>
  | GetUpdates int int int
      \<comment> \<open>\<^verbatim>\<open>api.getUpdates({offset, limit, timeout})\<close>\<close>
  | SendMessage chat_ident json_text
      \<comment> \<open>\<^verbatim>\<open>api.sendMessage({chat_id, text})\<close>\<close>
  | SetWebhook "string option" "string option"
      \<comment> \<open>\<^verbatim>\<open>api.setWebhook({url, certificate})\<close>; no url: \<^verbatim>\<open>setWebhook({certificate})\<close>\<close>
  | CreateListener
      \<comment> \<open>\<^verbatim>\<open>WebhookPost(webhook, options)\<close>\<close>
  | ListenerClose
      \<comment> \<open>\<^verbatim>\<open>webhook.close()\<close>\<close>
  | SetTimeout nat
      \<comment> \<open>\<^verbatim>\<open>setTimeout(self._read, ms)\<close>\<close>
  | Done "js_error option"
      \<comment> \<open>the completion callback of a write: \<^verbatim>\<open>done()\<close>, \<^verbatim>\<open>done(null)\<close> or \<^verbatim>\<open>done(error)\<close>\<close>
  | ThrownTypeError
      \<comment> \<open>a \<^verbatim>\<open>TypeError\<close> that the callback throws\<close>

text \<open>
  The part of \<^verbatim>\<open>self._readableState\<close> that \<^verbatim>\<open>_read\<close> looks at. The record belongs to
  the stream base class; the source only reads it. The mark and the length count
  buffered objects and stay far below \<open>2 ^ 53\<close>, where their difference is exact.
\<close>

record readable_state =
  highWaterMark :: int
  length_rs :: int
  ended :: bool

text \<open>The variable \<^verbatim>\<open>webhook\<close>: never assigned, a falsy option, the listener, or \<^verbatim>\<open>null\<close>.\<close>

datatype webhook_var = WUndefined | WFalsy | WActive | WNull

text \<open>The variable \<^verbatim>\<open>polling\<close>: never assigned, the promise of the last fetch, or \<^verbatim>\<open>null\<close>.\<close>

datatype polling_var = PUndefined | PPromise | PNull

text \<open>
  The instance. \<open>endOnSettle\<close> is not a variable of the source: it is the reaction
  \<^verbatim>\<open>polling.then(end, end)\<close> that \<^verbatim>\<open>close\<close> registers on the promise of the last fetch,
  until it has run.
  \<open>inFlight\<close> starts as \<^verbatim>\<open>undefined\<close>, which the source only tests for truth.
\<close>

record telegram_log =
  chat_id :: chat_ident
  certificate :: "string option"
  updatesOffset :: int
  webhook :: webhook_var
  polling :: polling_var
  inFlight :: bool
  endOnSettle :: bool
  readableState :: readable_state
  trace :: "effect list"

text \<open>
  \<^verbatim>\<open>self.push\<close> is inherited from the stream base class. It is a parameter of the
  model: given the readable state and the chunk it returns the new readable state and
  the boolean that tells the producer whether more data is welcome.
\<close>

type_synonym push_fun = "readable_state \<Rightarrow> string option \<Rightarrow> readable_state \<times> bool"

text \<open>
  One possible base class, used to run the model on concrete inputs: a paused stream
  that buffers every chunk and asks for more while the buffer is below the mark.
\<close>

definition buffer_push :: push_fun where
  "buffer_push rs chunk =
     (case chunk of
        None \<Rightarrow> (rs\<lparr>ended := True\<rparr>, False)
      | Some c \<Rightarrow>
          (rs\<lparr>length_rs := length_rs rs + 1\<rparr>, length_rs rs + 1 < highWaterMark rs))"

section \<open>Numbers\<close>

text \<open>
  A JavaScript number is a double: a significand of 53 bits and a power of two. \<open>ulp m\<close>
  is the distance between two neighbouring doubles at the magnitude \<open>m\<close>: 1 below
  \<open>2 ^ 53 = 9007199254740992\<close>, and doubled with each further bit. A sum is the exact sum
  rounded to the nearest double, a tie going to the even significand. Sums beyond the
  largest double (about \<open>1.8 * 10 ^ 308\<close>) are outside the model.
\<close>

function ulp :: "nat \<Rightarrow> nat" where
  "ulp m = (if m < 9007199254740992 then 1 else 2 * ulp (m div 2))"
  by pat_completeness auto
termination
  by (relation "measure id") auto

declare ulp.simps [simp del]

definition round_nat :: "nat \<Rightarrow> nat" where
  "round_nat m =
     (let q = ulp m; lo = (m div q) * q; r = m mod q
      in if 2 * r < q then lo
         else if q < 2 * r then lo + q
         else if even (m div q) then lo else lo + q)"

definition round_double :: "int \<Rightarrow> int" where
  "round_double n =
     (if n < 0 then - int (round_nat (nat (- n))) else int (round_nat (nat n)))"

text \<open>\<^verbatim>\<open>a + b\<close> on two numbers that hold integers.\<close>

definition number_add :: "int \<Rightarrow> int \<Rightarrow> int" where
  "number_add a b = round_double (a + b)"

text \<open>The integers that a number can hold.\<close>

definition representable :: "int \<Rightarrow> bool" where
  "representable n = (round_double n = n)"

section \<open>Private functions\<close>

definition emit :: "js_error \<Rightarrow> telegram_log \<Rightarrow> telegram_log" where
  "emit err s = s\<lparr>trace := trace s @ [EmitError err]\<rparr>"

definition emitError :: "string \<Rightarrow> error_data \<Rightarrow> telegram_log \<Rightarrow> telegram_log \<times> retval" where
  "emitError msg d s = (emit (Error msg d) s, RUndefined)"

definition self_push :: "push_fun \<Rightarrow> string option \<Rightarrow> telegram_log \<Rightarrow> telegram_log \<times> retval" where
  "self_push push chunk s =
     (let (rs, r) = push (readableState s) chunk
      in (s\<lparr>readableState := rs, trace := trace s @ [Push chunk]\<rparr>, RBool r))"

definition processUpdate :: "push_fun \<Rightarrow> tg_update \<Rightarrow> telegram_log \<Rightarrow> telegram_log \<times> retval" where
  "processUpdate push update s =
     (let s1 = (if update_id update \<ge> updatesOffset s
                then s\<lparr>updatesOffset := number_add (update_id update) 1\<rparr> else s)
      in case message update of
           None \<Rightarrow> emitError ''Inline queries are not supported'' (DataUpdate update) s1
         | Some m \<Rightarrow>
             if msg_chat_id m \<noteq> chat_id s1
             then emitError ''Received message for not-listening chat'' (DataMessage m) s1
             else (case msg_text m of
                     None \<Rightarrow> emitError ''Only text messages are supported'' (DataMessage m) s1
                   | Some t \<Rightarrow> self_push push (Some t) s1))"

text \<open>\<^verbatim>\<open>var end = this.push.bind(this, null)\<close>\<close>

definition end_push :: "push_fun \<Rightarrow> telegram_log \<Rightarrow> telegram_log" where
  "end_push push s = fst (self_push push None s)"

section \<open>Webhook\<close>

text \<open>
  \<^verbatim>\<open>closeWebhook\<close> calls \<^verbatim>\<open>webhook.close()\<close> and then sets the variable to \<^verbatim>\<open>null\<close>. When
  the variable is already \<^verbatim>\<open>null\<close> the method call throws.
\<close>

definition closeWebhook :: "telegram_log \<Rightarrow> telegram_log" where
  "closeWebhook s =
     (if webhook s = WActive
      then s\<lparr>webhook := WNull, trace := trace s @ [ListenerClose]\<rparr>
      else s\<lparr>trace := trace s @ [ThrownTypeError]\<rparr>)"

text \<open>The listener's \<^verbatim>\<open>open\<close> handler registers the url.\<close>

definition on_open :: "string \<Rightarrow> telegram_log \<Rightarrow> telegram_log" where
  "on_open url s = s\<lparr>trace := trace s @ [SetWebhook (Some url) (certificate s)]\<rparr>"

text \<open>The \<^verbatim>\<open>catch\<close> of that registration.\<close>

definition on_open_catch :: "push_fun \<Rightarrow> js_error \<Rightarrow> telegram_log \<Rightarrow> telegram_log" where
  "on_open_catch push err s = end_push push ((emit err s)\<lparr>webhook := WNull\<rparr>)"

text \<open>
  The listener's \<^verbatim>\<open>data\<close> handler; its argument is the update that \<^verbatim>\<open>JSON.parse\<close>
  returns.
\<close>

definition on_data :: "push_fun \<Rightarrow> tg_update \<Rightarrow> telegram_log \<Rightarrow> telegram_log" where
  "on_data push update s =
     (if update_id update \<ge> updatesOffset s then fst (processUpdate push update s) else s)"

text \<open>The listener's \<^verbatim>\<open>end\<close> handler, and the reaction to the call it makes.\<close>

definition on_end :: "push_fun \<Rightarrow> telegram_log \<Rightarrow> telegram_log" where
  "on_end push s =
     (if webhook s \<noteq> WActive then end_push push s
      else s\<lparr>webhook := WNull, trace := trace s @ [SetWebhook None (certificate s)]\<rparr>)"

section \<open>Polling\<close>

text \<open>
  \<^verbatim>\<open>processUpdate(update) && fetchMoreDate\<close>: the left operand is evaluated first, and
  is the result when it is falsy.
\<close>

definition processUpdate_reduce ::
  "push_fun \<Rightarrow> retval \<times> telegram_log \<Rightarrow> tg_update \<Rightarrow> retval \<times> telegram_log" where
  "processUpdate_reduce push acc update =
     (let (s', r) = processUpdate push update (snd acc)
      in ((if truthy r then fst acc else r), s'))"

definition gotUpdates :: "push_fun \<Rightarrow> tg_update list \<Rightarrow> telegram_log \<Rightarrow> telegram_log" where
  "gotUpdates push data s =
     (let (r, s1) = foldl (processUpdate_reduce push) (RBool True, s\<lparr>inFlight := False\<rparr>) data
      in if truthy r then s1\<lparr>trace := trace s1 @ [SetTimeout 1000]\<rparr> else s1)"

definition onError :: "js_error \<Rightarrow> telegram_log \<Rightarrow> telegram_log" where
  "onError err s = emit err (s\<lparr>inFlight := False\<rparr>)"

definition tl_read :: "telegram_log \<Rightarrow> telegram_log" where
  "tl_read s =
     (let state = readableState s;
          limit = highWaterMark state - length_rs state
      in if inFlight s \<or> ended state \<or> limit = 0
            \<or> polling s = PNull \<or> webhook s \<noteq> WUndefined
         then s
         else s\<lparr>inFlight := True, polling := PPromise,
                trace := trace s @ [GetUpdates (updatesOffset s) limit 0]\<rparr>)"

text \<open>
  The promise stored in \<^verbatim>\<open>polling\<close> settles when \<^verbatim>\<open>gotUpdates\<close> or \<^verbatim>\<open>onError\<close> has
  returned; a reaction that \<^verbatim>\<open>close\<close> registered on it runs next. A reaction registered
  on a promise that has settled already runs as a job of its own, after the callback
  that registered it has returned (\<open>promise_job\<close>).
\<close>

definition settle :: "push_fun \<Rightarrow> telegram_log \<Rightarrow> telegram_log" where
  "settle push s = (if endOnSettle s then end_push push (s\<lparr>endOnSettle := False\<rparr>) else s)"

definition fetch_resolved :: "push_fun \<Rightarrow> tg_update list \<Rightarrow> telegram_log \<Rightarrow> telegram_log" where
  "fetch_resolved push data s = settle push (gotUpdates push data s)"

definition fetch_rejected :: "push_fun \<Rightarrow> js_error \<Rightarrow> telegram_log \<Rightarrow> telegram_log" where
  "fetch_rejected push err s = settle push (onError err s)"

definition promise_job :: "push_fun \<Rightarrow> telegram_log \<Rightarrow> telegram_log" where
  "promise_job push s = (if inFlight s then s else settle push s)"

section \<open>Duplex API\<close>

text \<open>
  \<^verbatim>\<open>chunk == ''\<close> is the loose comparison: a number or a boolean is compared as a number
  with \<open>0\<close>, an object or an array through its primitive form. For a plain object that is
  the result of the inherited \<^verbatim>\<open>toString\<close>, a non-empty string; but an own property
  \<^verbatim>\<open>toString\<close>, which is not a function here, hides the inherited one, and the
  conversion throws a \<^verbatim>\<open>TypeError\<close>. For an array it is the comma-separated join of the
  string forms of its elements, \<^verbatim>\<open>null\<close> and \<^verbatim>\<open>undefined\<close> elements giving the empty
  string, and it throws when the conversion of an element does.
\<close>

fun to_primitive_throws :: "jsvalue \<Rightarrow> bool" where
  "to_primitive_throws (JObj kvs) = (''toString'' \<in> set (map fst kvs))"
| "to_primitive_throws (JArr xs) = list_ex to_primitive_throws xs"
| "to_primitive_throws v = False"

text \<open>
  Whether the string form of an element, and with \<open>loose_eq_empty\<close> whether the
  comparison, comes out empty, for a value whose conversion does not throw.
\<close>

fun joins_to_empty :: "jsvalue \<Rightarrow> bool" where
  "joins_to_empty JUndefined = True"
| "joins_to_empty JNull = True"
| "joins_to_empty (JStr t) = (t = [])"
| "joins_to_empty (JArr []) = True"
| "joins_to_empty (JArr [x]) = joins_to_empty x"
| "joins_to_empty (JArr (x # y # zs)) = False"
| "joins_to_empty (JBool b) = False"
| "joins_to_empty (JNum n) = False"
| "joins_to_empty (JObj kvs) = False"

fun loose_eq_empty :: "jsvalue \<Rightarrow> bool" where
  "loose_eq_empty JUndefined = False"
| "loose_eq_empty JNull = False"
| "loose_eq_empty (JBool b) = (\<not> b)"
| "loose_eq_empty (JNum n) = (n = 0)"
| "loose_eq_empty (JStr t) = (t = [])"
| "loose_eq_empty (JArr xs) = joins_to_empty (JArr xs)"
| "loose_eq_empty (JObj kvs) = False"

fun loose_eq_null :: "jsvalue \<Rightarrow> bool" where
  "loose_eq_null JUndefined = True"
| "loose_eq_null JNull = True"
| "loose_eq_null v = False"

text \<open>
  \<^verbatim>\<open>_write\<close>. In \<^verbatim>\<open>chunk == null || chunk == ''\<close> the second comparison is evaluated when
  the first is false, and may throw; the exception leaves \<^verbatim>\<open>_write\<close> before \<^verbatim>\<open>done\<close> or
  \<^verbatim>\<open>sendMessage\<close> is called. The promise of \<^verbatim>\<open>sendMessage\<close> settles later, with \<open>None\<close>
  or with an error, and \<open>send_settled\<close> is its reaction
  \<^verbatim>\<open>.then(done.bind(null, null), done)\<close>.
\<close>

definition tl_write :: "jsvalue \<Rightarrow> telegram_log \<Rightarrow> telegram_log" where
  "tl_write chunk s =
     (if loose_eq_null chunk then s\<lparr>trace := trace s @ [Done None]\<rparr>
      else if to_primitive_throws chunk then s\<lparr>trace := trace s @ [ThrownTypeError]\<rparr>
      else if loose_eq_empty chunk then s\<lparr>trace := trace s @ [Done None]\<rparr>
      else s\<lparr>trace := trace s @ [SendMessage (chat_id s) (JSON_stringify chunk)]\<rparr>)"

definition send_settled :: "js_error option \<Rightarrow> telegram_log \<Rightarrow> telegram_log" where
  "send_settled outcome s = s\<lparr>trace := trace s @ [Done outcome]\<rparr>"

section \<open>Public API\<close>

text \<open>
  \<^verbatim>\<open>close\<close>. In the last branch \<^verbatim>\<open>polling.then(end, end)\<close> registers \<^verbatim>\<open>end\<close> as a reaction
  and \<^verbatim>\<open>polling = null\<close> follows; \<^verbatim>\<open>close\<close> itself signals nothing.
\<close>

definition tl_close :: "telegram_log \<Rightarrow> telegram_log" where
  "tl_close s =
     (if webhook s = WNull then s
      else if webhook s = WActive
      then s\<lparr>trace := trace s @ [SetWebhook None (certificate s)]\<rparr>
      else if polling s = PPromise
      then s\<lparr>endOnSettle := True, polling := PNull\<rparr>
      else s)"

section \<open>Construction\<close>

text \<open>
  The arguments of the constructor. The first one is the token, or one object holding
  the token, the chat and the options, or is missing. \<^verbatim>\<open>options.webhook\<close> is a port
  number, a host name, or an object with optional \<^verbatim>\<open>hostname\<close>, \<^verbatim>\<open>port\<close> and
  \<^verbatim>\<open>certificate\<close>.
\<close>

record webhook_object =
  hostname :: "string option"
  port :: "int option"
  certificate_wh :: "string option"

datatype webhook_option =
    WebhookNumber int
  | WebhookString string
  | WebhookObject webhook_object

record options =
  webhook_opt :: "webhook_option option"
  certificate_opt :: "string option"

datatype first_arg =
    NoArgument
  | Token string
  | Config "string option" "chat_ident option" "options option"

text \<open>The value of \<^verbatim>\<open>webhook.port || webhook\<close>, which the thrown error carries.\<close>

datatype port_value = PortNumber int | PortObject webhook_object

datatype ctor_error =
    TypeErrorThrown
      \<comment> \<open>\<^verbatim>\<open>token.constructor\<close> on a missing first argument\<close>
  | MissingToken
  | MissingChatId
  | PortRangeError port_value

text \<open>Truth of the values the constructor tests.\<close>

fun truthy_string :: "string option \<Rightarrow> bool" where
  "truthy_string None = False"
| "truthy_string (Some t) = (t \<noteq> [])"

fun truthy_chat :: "chat_ident option \<Rightarrow> bool" where
  "truthy_chat None = False"
| "truthy_chat (Some (IdNum n)) = (n \<noteq> 0)"
| "truthy_chat (Some (IdStr t)) = (t \<noteq> [])"

fun truthy_webhook :: "webhook_option \<Rightarrow> bool" where
  "truthy_webhook (WebhookNumber n) = (n \<noteq> 0)"
| "truthy_webhook (WebhookString t) = (t \<noteq> [])"
| "truthy_webhook (WebhookObject ob) = True"

text \<open>\<^verbatim>\<open>var port = webhook.port || webhook\<close>, evaluated when the webhook is not a string.\<close>

fun port_of :: "webhook_option \<Rightarrow> port_value" where
  "port_of (WebhookNumber n) = PortNumber n"
| "port_of (WebhookObject ob) =
     (case port ob of
        None \<Rightarrow> PortObject ob
      | Some p \<Rightarrow> if p \<noteq> 0 then PortNumber p else PortObject ob)"
| "port_of (WebhookString t) = PortNumber 0"

text \<open>\<^verbatim>\<open>port !== 80 && port !== 88 && port !== 443 && port !== 8443\<close>\<close>

fun port_rejected :: "port_value \<Rightarrow> bool" where
  "port_rejected (PortNumber p) = (p \<noteq> 80 \<and> p \<noteq> 88 \<and> p \<noteq> 443 \<and> p \<noteq> 8443)"
| "port_rejected (PortObject ob) = True"

text \<open>\<^verbatim>\<open>webhook.certificate || options.certificate || ''\<close>\<close>

fun or_string :: "string option \<Rightarrow> string \<Rightarrow> string" where
  "or_string None d = d"
| "or_string (Some t) d = (if t \<noteq> [] then t else d)"

definition certificate_of :: "webhook_option \<Rightarrow> options \<Rightarrow> string" where
  "certificate_of w opts =
     or_string (case w of WebhookObject ob \<Rightarrow> certificate_wh ob | _ \<Rightarrow> None)
       (or_string (certificate_opt opts) [])"

text \<open>
  The constructor. \<open>rs0\<close> is the readable state that the base class constructor sets up
  from the options. A \<^verbatim>\<open>throw\<close> is a left result: no instance exists then, and no
  collaborator has been called.
\<close>

definition TelegramLog ::
  "readable_state \<Rightarrow> first_arg \<Rightarrow> chat_ident option \<Rightarrow> options option
     \<Rightarrow> ctor_error + telegram_log" where
  "TelegramLog rs0 token chat options =
     (case token of
        NoArgument \<Rightarrow> Inl TypeErrorThrown
      | _ \<Rightarrow>
     (let (token1, chat1, options1) =
            (case token of
               Config t c opts \<Rightarrow> (t, c, opts)
             | Token t \<Rightarrow> (Some t, chat, options)
             | NoArgument \<Rightarrow> (None, chat, options));
          options2 = (case options1 of
                        None \<Rightarrow> \<lparr>webhook_opt = None, certificate_opt = None\<rparr>
                      | Some opts \<Rightarrow> opts)
      in if \<not> truthy_string token1 then Inl MissingToken
         else if \<not> truthy_chat chat1 then Inl MissingChatId
         else
           (case chat1 of
              None \<Rightarrow> Inl MissingChatId
            | Some c \<Rightarrow>
           (let s0 = \<lparr>chat_id = c, certificate = None, updatesOffset = 0,
                      webhook = WUndefined, polling = PUndefined, inFlight = False,
                      endOnSettle = False, readableState = rs0, trace = []\<rparr>
            in case webhook_opt options2 of
                 None \<Rightarrow> Inr s0
               | Some w \<Rightarrow>
                   if \<not> truthy_webhook w then Inr (s0\<lparr>webhook := WFalsy\<rparr>)
                   else if (case w of WebhookString t \<Rightarrow> False | _ \<Rightarrow> True)
                           \<and> port_rejected (port_of w)
                   then Inl (PortRangeError (port_of w))
                   else Inr (s0\<lparr>certificate := Some (certificate_of w options2),
                                webhook := WActive, trace := [CreateListener]\<rparr>)))))"

section \<open>The instance as a machine\<close>

text \<open>
  Each callback runs to completion before the next one starts. An input is one such
  run: a call of the public or stream interface, an event of the listener, or the
  settling of a promise.
\<close>

datatype input =
    CallRead
      \<comment> \<open>\<^verbatim>\<open>_read\<close>, called by the stream or by the timer\<close>
  | FetchResolved "tg_update list"
  | FetchRejected js_error
  | ListenerOpen string
  | RegistrationRejected js_error
  | ListenerData tg_update
  | ListenerError js_error
  | ListenerEnd
  | CloseUnregistrationSettled
      \<comment> \<open>\<^verbatim>\<open>.then(closeWebhook, closeWebhook)\<close> in \<^verbatim>\<open>close\<close>\<close>
  | EndUnregistrationSettled
      \<comment> \<open>\<^verbatim>\<open>.then(end, end)\<close> in the listener's \<^verbatim>\<open>end\<close> handler\<close>
  | CallWrite jsvalue
  | SendSettled "js_error option"
  | CallClose
  | PromiseJob
      \<comment> \<open>the reaction registered by \<^verbatim>\<open>close\<close> on a fetch that has settled before\<close>

fun step :: "push_fun \<Rightarrow> telegram_log \<Rightarrow> input \<Rightarrow> telegram_log" where
  "step push s CallRead = tl_read s"
| "step push s (FetchResolved data) = fetch_resolved push data s"
| "step push s (FetchRejected err) = fetch_rejected push err s"
| "step push s (ListenerOpen url) = on_open url s"
| "step push s (RegistrationRejected err) = on_open_catch push err s"
| "step push s (ListenerData update) = on_data push update s"
| "step push s (ListenerError err) = emit err s"
| "step push s ListenerEnd = on_end push s"
| "step push s CloseUnregistrationSettled = closeWebhook s"
| "step push s EndUnregistrationSettled = end_push push s"
| "step push s (CallWrite chunk) = tl_write chunk s"
| "step push s (SendSettled outcome) = send_settled outcome s"
| "step push s CallClose = tl_close s"
| "step push s PromiseJob = promise_job push s"

definition run :: "push_fun \<Rightarrow> telegram_log \<Rightarrow> input list \<Rightarrow> telegram_log" where
  "run push s evs = foldl (step push) s evs"

text \<open>The updates an input delivers to the instance.\<close>

fun observed :: "input \<Rightarrow> tg_update list" where
  "observed (FetchResolved data) = data"
| "observed (ListenerData update) = [update]"
| "observed ev = []"

text \<open>What the trace shows to a consumer of the stream.\<close>

fun data_events :: "effect list \<Rightarrow> string list" where
  "data_events [] = []"
| "data_events (Push (Some t) # es) = t # data_events es"
| "data_events (e # es) = data_events es"

fun error_events :: "effect list \<Rightarrow> js_error list" where
  "error_events [] = []"
| "error_events (EmitError err # es) = err # error_events es"
| "error_events (e # es) = error_events es"

section \<open>Vocabulary of the specification\<close>

text \<open>
  The validator contract of the specification: an update is rejected with a kind and the
  offending object, or yields its text. \<open>diagnostic\<close> is the message under which the
  source reports each kind.
\<close>

datatype reject_kind = InlineQueryUnsupported | WrongChat | NonTextMessage

fun diagnostic :: "reject_kind \<Rightarrow> string" where
  "diagnostic InlineQueryUnsupported = ''Inline queries are not supported''"
| "diagnostic WrongChat = ''Received message for not-listening chat''"
| "diagnostic NonTextMessage = ''Only text messages are supported''"

definition validate :: "chat_ident \<Rightarrow> tg_update \<Rightarrow> (reject_kind \<times> error_data) + string" where
  "validate c update =
     (case message update of
        None \<Rightarrow> Inl (InlineQueryUnsupported, DataUpdate update)
      | Some m \<Rightarrow>
          if msg_chat_id m \<noteq> c then Inl (WrongChat, DataMessage m)
          else (case msg_text m of
                  None \<Rightarrow> Inl (NonTextMessage, DataMessage m)
                | Some t \<Rightarrow> Inr t))"

text \<open>The one event that the contract asks the caller to surface for an update.\<close>

definition surfaced :: "chat_ident \<Rightarrow> tg_update \<Rightarrow> effect" where
  "surfaced c update =
     (case validate c update of
        Inl (k, d) \<Rightarrow> EmitError (Error (diagnostic k) d)
      | Inr t \<Rightarrow> Push (Some t))"

definition rejected :: "chat_ident \<Rightarrow> tg_update \<Rightarrow> bool" where
  "rejected c update = (case validate c update of Inl r \<Rightarrow> True | Inr t \<Rightarrow> False)"

text \<open>
  The offset tracker of the specification: \<^verbatim>\<open>observe(update_id)\<close> on the offset, the
  sum being the one of the source's numbers.
\<close>

definition observe :: "int \<Rightarrow> int \<Rightarrow> int" where
  "observe offset i = (if i \<ge> offset then number_add i 1 else offset)"

text \<open>
  The continue flag of the specification: true at the start, and reduced over the batch
  with "this update was pushed downstream and the consumer did not signal
  backpressure", the consumer's answer being the one of the base class on the readable
  state that the earlier pushes of the batch have left.
\<close>

fun continueFlag :: "push_fun \<Rightarrow> chat_ident \<Rightarrow> tg_update list \<Rightarrow> readable_state \<Rightarrow> bool" where
  "continueFlag push c [] rs = True"
| "continueFlag push c (u # us) rs =
     (case surfaced c u of
        Push chunk \<Rightarrow> snd (push rs chunk) \<and> continueFlag push c us (fst (push rs chunk))
      | _ \<Rightarrow> False)"

text \<open>The conditions of the flow controller, on the variables of the source.\<close>

definition free_capacity :: "telegram_log \<Rightarrow> int" where
  "free_capacity s = highWaterMark (readableState s) - length_rs (readableState s)"

definition stopped :: "telegram_log \<Rightarrow> bool" where
  "stopped s = (ended (readableState s) \<or> polling s = PNull)"

datatype transport_mode = Polling | Webhook

definition mode :: "telegram_log \<Rightarrow> transport_mode" where
  "mode s = (if webhook s = WUndefined then Polling else Webhook)"

section \<open>Concrete instances and inputs\<close>

definition default_readable :: readable_state where
  "default_readable = \<lparr>highWaterMark = 16, length_rs = 0, ended = False\<rparr>"

text \<open>\<^verbatim>\<open>TelegramLog('token', 42)\<close>\<close>

definition polling_instance :: telegram_log where
  "polling_instance =
     \<lparr>chat_id = IdNum 42, certificate = None, updatesOffset = 0, webhook = WUndefined,
      polling = PUndefined, inFlight = False, endOnSettle = False,
      readableState = default_readable, trace = []\<rparr>"

text \<open>\<^verbatim>\<open>TelegramLog('token', 42, {webhook: 8443})\<close>\<close>

definition webhook_instance :: telegram_log where
  "webhook_instance =
     \<lparr>chat_id = IdNum 42, certificate = Some [], updatesOffset = 0, webhook = WActive,
      polling = PUndefined, inFlight = False, endOnSettle = False,
      readableState = default_readable, trace = [CreateListener]\<rparr>"

definition text_update :: "int \<Rightarrow> int \<Rightarrow> string \<Rightarrow> tg_update" where
  "text_update i c t =
     \<lparr>update_id = i, message = Some \<lparr>msg_chat_id = IdNum c, msg_text = Some t\<rparr>\<rparr>"

definition photo_update :: "int \<Rightarrow> int \<Rightarrow> tg_update" where
  "photo_update i c = \<lparr>update_id = i, message = Some \<lparr>msg_chat_id = IdNum c, msg_text = None\<rparr>\<rparr>"

definition inline_update :: "int \<Rightarrow> tg_update" where
  "inline_update i = \<lparr>update_id = i, message = None\<rparr>"

definition host_only :: webhook_object where
  "host_only = \<lparr>hostname = Some ''example.org'', port = None, certificate_wh = None\<rparr>"

section \<open>Sums of numbers\<close>

text \<open>
  Below \<open>2 ^ 53\<close> every integer is a double and sums are exact up to \<open>2 ^ 53\<close> itself;
  \<open>2 ^ 53 + 1\<close> is the first integer that is not a double. Adding 1 to a double that
  holds an integer of at least 0 never gives less than that integer.
\<close>

lemma ulp_small: "m < 9007199254740992 \<Longrightarrow> ulp m = 1"
  by (simp add: ulp.simps)

lemma ulp_large: "9007199254740992 \<le> m \<Longrightarrow> ulp m = 2 * ulp (m div 2)"
  by (subst ulp.simps) simp

lemma ulp_pos: "0 < ulp m"
  by (induction m rule: ulp.induct) (subst ulp.simps, simp)

lemma round_nat_small: "m < 9007199254740992 \<Longrightarrow> round_nat m = m"
  by (simp add: round_nat_def ulp_small)

lemma round_nat_limit: "round_nat 9007199254740992 = 9007199254740992"
  by (simp add: round_nat_def ulp_large ulp_small)

lemma round_nat_past_limit: "round_nat 9007199254740993 = 9007199254740992"
  by (simp add: round_nat_def ulp_large ulp_small)

lemma round_nat_lower: "(m div ulp m) * ulp m \<le> round_nat m"
  by (simp add: round_nat_def Let_def)

lemma round_nat_fixed: "round_nat m = m \<Longrightarrow> ulp m dvd m"
proof (rule ccontr)
  assume fixed: "round_nat m = m" and "\<not> ulp m dvd m"
  define q where "q = ulp m"
  have r: "0 < m mod q" using \<open>\<not> ulp m dvd m\<close> by (simp add: q_def dvd_eq_mod_eq_0)
  have lo: "(m div q) * q < m"
    using r by (metis add.commute div_mult_mod_eq less_add_same_cancel2 mult.commute)
  have hi: "m < (m div q) * q + q"
    using ulp_pos [of m] by (metis q_def add.commute dividend_less_div_times mult.commute)
  have "round_nat m = (m div q) * q \<or> round_nat m = (m div q) * q + q"
    by (simp add: round_nat_def Let_def q_def)
  then show False using fixed lo hi by auto
qed

lemma ulp_even: "9007199254740992 \<le> m \<Longrightarrow> even (ulp m)"
  by (simp add: ulp_large)

lemma ulp_Suc: "9007199254740992 \<le> m \<Longrightarrow> even m \<Longrightarrow> ulp (Suc m) = ulp m"
  by (simp add: ulp_large)

lemma round_nat_Suc: 
  assumes "ulp m dvd m"
  shows "m \<le> round_nat (Suc m)"
proof (cases "m < 9007199254740991")
  case True
  then show ?thesis by (simp add: round_nat_small)
next
  case False
  show ?thesis
  proof (cases "m = 9007199254740991")
    case True
    then show ?thesis by (simp add: round_nat_limit)
  next
    case False
    with \<open>\<not> m < 9007199254740991\<close> have big: "9007199254740992 \<le> m" by simp
    then have "even m" using assms ulp_even dvd_trans by blast
    then have same: "ulp (Suc m) = ulp m" by (rule ulp_Suc [OF big])
    obtain k where k: "m = k * ulp m" using assms by (metis dvd_def mult.commute)
    have "k \<le> Suc m div ulp m"
      using k ulp_pos [of m] by (metis div_le_mono le_SucI le_refl nonzero_mult_div_cancel_right less_numeral_extra(3))
    then have "m \<le> (Suc m div ulp (Suc m)) * ulp (Suc m)"
      using k same by (metis mult_le_mono1)
    then show ?thesis using round_nat_lower [of "Suc m"] by linarith
  qed
qed

lemma representable_add_one:
  assumes "0 \<le> i" and "representable i"
  shows "i \<le> number_add i 1"
proof -
  have "round_nat (nat i) = nat i"
    using assms by (simp add: representable_def round_double_def)
  then have "ulp (nat i) dvd nat i" by (rule round_nat_fixed)
  then have "nat i \<le> round_nat (Suc (nat i))" by (rule round_nat_Suc)
  moreover have "nat (i + 1) = Suc (nat i)" using assms(1) by simp
  ultimately show ?thesis
    using assms(1) by (simp add: number_add_def round_double_def)
qed

lemma number_add_exact:
  "- 9007199254740992 \<le> a + b \<Longrightarrow> a + b \<le> 9007199254740992 \<Longrightarrow> number_add a b = a + b"
proof -
  assume lo: "- 9007199254740992 \<le> a + b" and hi: "a + b \<le> 9007199254740992"
  have nat_ok: "round_nat m = m" if "m \<le> 9007199254740992" for m
    using that round_nat_small [of m] round_nat_limit by (cases "m = 9007199254740992") auto
  show ?thesis
  proof (cases "a + b < 0")
    case True
    then have "nat (- (a + b)) \<le> 9007199254740992" using lo by simp
    then show ?thesis using True by (simp add: number_add_def round_double_def nat_ok)
  next
    case False
    then have "nat (a + b) \<le> 9007199254740992" using hi by simp
    then show ?thesis using False by (simp add: number_add_def round_double_def nat_ok)
  qed
qed

lemma number_add_limit: "number_add 9007199254740992 1 = 9007199254740992"
  by (simp add: number_add_def round_double_def round_nat_past_limit)

lemma representable_small: "0 \<le> n \<Longrightarrow> n < 9007199254740992 \<Longrightarrow> representable n"
  by (simp add: representable_def round_double_def round_nat_small)

section \<open>The validator and the offset tracker in \<^verbatim>\<open>processUpdate\<close>\<close>

lemmas processUpdate_defs =
  processUpdate_def emitError_def emit_def self_push_def surfaced_def validate_def Let_def

lemma processUpdate_offset:
  "updatesOffset (fst (processUpdate push u s)) = observe (updatesOffset s) (update_id u)"
  by (simp add: processUpdate_defs observe_def split: option.splits prod.splits)

lemma processUpdate_chat: "chat_id (fst (processUpdate push u s)) = chat_id s"
  by (simp add: processUpdate_defs split: option.splits prod.splits)

lemma processUpdate_trace:
  "trace (fst (processUpdate push u s)) = trace s @ [surfaced (chat_id s) u]"
  by (simp add: processUpdate_defs split: option.splits prod.splits)

lemma processUpdate_readable:
  "readableState (fst (processUpdate push u s)) =
     (case surfaced (chat_id s) u of
        Push chunk \<Rightarrow> fst (push (readableState s) chunk)
      | _ \<Rightarrow> readableState s)"
  by (simp add: processUpdate_defs split: option.splits prod.splits)

lemma processUpdate_truthy:
  "truthy (snd (processUpdate push u s)) =
     (case surfaced (chat_id s) u of
        Push chunk \<Rightarrow> snd (push (readableState s) chunk)
      | _ \<Rightarrow> False)"
  by (simp add: processUpdate_defs split: option.splits prod.splits)

lemma processUpdate_rejected:
  "rejected (chat_id s) u \<Longrightarrow> snd (processUpdate push u s) = RUndefined"
  by (simp add: processUpdate_defs rejected_def split: option.splits prod.splits if_splits)

text \<open>
  C3: a fresh update without a message gives exactly one error event of kind
  InlineQueryUnsupported carrying the update, and nothing is pushed; otherwise a message
  of another chat gives exactly one error event of kind WrongChat carrying the message;
  otherwise a message without text gives exactly one error event of kind NonTextMessage
  carrying the message; otherwise exactly one data event, the text, and no error. A
  rejection changes nothing but the offset, which becomes the sum of the identifier and
  1, and the trace, so processing goes on.
\<close>

theorem processUpdate_validator:
  assumes "updatesOffset s \<le> update_id u"
  shows
    "(message u = None \<longrightarrow>
        processUpdate push u s =
          (s\<lparr>updatesOffset := number_add (update_id u) 1,
             trace := trace s @
               [EmitError (Error (diagnostic InlineQueryUnsupported) (DataUpdate u))]\<rparr>,
           RUndefined))
     \<and> (\<forall>m. message u = Some m \<and> msg_chat_id m \<noteq> chat_id s \<longrightarrow>
        processUpdate push u s =
          (s\<lparr>updatesOffset := number_add (update_id u) 1,
             trace := trace s @ [EmitError (Error (diagnostic WrongChat) (DataMessage m))]\<rparr>,
           RUndefined))
     \<and> (\<forall>m. message u = Some m \<and> msg_chat_id m = chat_id s \<and> msg_text m = None \<longrightarrow>
        processUpdate push u s =
          (s\<lparr>updatesOffset := number_add (update_id u) 1,
             trace := trace s @
               [EmitError (Error (diagnostic NonTextMessage) (DataMessage m))]\<rparr>,
           RUndefined))
     \<and> (\<forall>m t. message u = Some m \<and> msg_chat_id m = chat_id s \<and> msg_text m = Some t \<longrightarrow>
        trace (fst (processUpdate push u s)) = trace s @ [Push (Some t)]
        \<and> snd (processUpdate push u s) = RBool (snd (push (readableState s) (Some t))))"
  using assms
  by (simp add: processUpdate_def emitError_def emit_def self_push_def Let_def
        split: prod.splits)

theorem processUpdate_validator_witness:
  "updatesOffset polling_instance \<le> update_id (text_update 1 42 ''hi'')
   \<and> trace (fst (processUpdate buffer_push (text_update 1 42 ''hi'') polling_instance))
       = [Push (Some ''hi'')]
   \<and> snd (processUpdate buffer_push (text_update 1 42 ''hi'') polling_instance) = RBool True
   \<and> trace (fst (processUpdate buffer_push (text_update 1 7 ''hi'') polling_instance))
       = [EmitError (Error ''Received message for not-listening chat''
            (DataMessage \<lparr>msg_chat_id = IdNum 7, msg_text = Some ''hi''\<rparr>))]
   \<and> trace (fst (processUpdate buffer_push (photo_update 1 42) polling_instance))
       = [EmitError (Error ''Only text messages are supported''
            (DataMessage \<lparr>msg_chat_id = IdNum 42, msg_text = None\<rparr>))]
   \<and> trace (fst (processUpdate buffer_push (inline_update 1) polling_instance))
       = [EmitError (Error ''Inline queries are not supported'' (DataUpdate (inline_update 1)))]"
proof -
  have fresh: "\<And>u. update_id u = 1 \<Longrightarrow> updatesOffset polling_instance \<le> update_id u"
    by (simp add: polling_instance_def)
  have a: "updatesOffset polling_instance \<le> update_id (text_update 1 42 ''hi'')"
    by (rule fresh) (simp add: text_update_def)
  have b: "updatesOffset polling_instance \<le> update_id (text_update 1 7 ''hi'')"
    by (rule fresh) (simp add: text_update_def)
  have c: "updatesOffset polling_instance \<le> update_id (photo_update 1 42)"
    by (rule fresh) (simp add: photo_update_def)
  have d: "updatesOffset polling_instance \<le> update_id (inline_update 1)"
    by (rule fresh) (simp add: inline_update_def)
  show ?thesis
    using a processUpdate_validator [OF a, of buffer_push]
      processUpdate_validator [OF b, of buffer_push]
      processUpdate_validator [OF c, of buffer_push]
      processUpdate_validator [OF d, of buffer_push]
    by (simp add: polling_instance_def text_update_def photo_update_def inline_update_def
          buffer_push_def default_readable_def)
qed

section \<open>A polling batch in \<^verbatim>\<open>gotUpdates\<close>\<close>

lemma reduce_step:
  "processUpdate_reduce push acc u =
     ((if truthy (snd (processUpdate push u (snd acc))) then fst acc
       else snd (processUpdate push u (snd acc))),
      fst (processUpdate push u (snd acc)))"
  by (simp add: processUpdate_reduce_def split: prod.splits)

lemma fold_chat:
  "chat_id (snd (foldl (processUpdate_reduce push) acc data)) = chat_id (snd acc)"
  by (induction data arbitrary: acc) (simp_all add: reduce_step processUpdate_chat)

lemma fold_trace:
  "trace (snd (foldl (processUpdate_reduce push) acc data)) =
     trace (snd acc) @ map (surfaced (chat_id (snd acc))) data"
  by (induction data arbitrary: acc)
     (simp_all add: reduce_step processUpdate_chat processUpdate_trace)

lemma fold_offset:
  "updatesOffset (snd (foldl (processUpdate_reduce push) acc data)) =
     foldl observe (updatesOffset (snd acc)) (map update_id data)"
  by (induction data arbitrary: acc) (simp_all add: reduce_step processUpdate_offset)

lemma processUpdate_inFlight: "inFlight (fst (processUpdate push u s)) = inFlight s"
  by (simp add: processUpdate_defs split: option.splits prod.splits)

lemma fold_inFlight:
  "inFlight (snd (foldl (processUpdate_reduce push) acc data)) = inFlight (snd acc)"
  by (induction data arbitrary: acc) (simp_all add: reduce_step processUpdate_inFlight)

lemma fold_flag:
  "truthy (fst (foldl (processUpdate_reduce push) acc data)) =
     (truthy (fst acc) \<and> continueFlag push (chat_id (snd acc)) data (readableState (snd acc)))"
proof (induction data arbitrary: acc)
  case Nil
  show ?case by simp
next
  case (Cons u us)
  define acc' where "acc' = processUpdate_reduce push acc u"
  have chat: "chat_id (snd acc') = chat_id (snd acc)"
    by (simp add: acc'_def reduce_step processUpdate_chat)
  have flag: "truthy (fst acc') =
      (truthy (fst acc) \<and> truthy (snd (processUpdate push u (snd acc))))"
    by (simp add: acc'_def reduce_step)
  have rs: "readableState (snd acc') = readableState (fst (processUpdate push u (snd acc)))"
    by (simp add: acc'_def reduce_step)
  have "truthy (fst (foldl (processUpdate_reduce push) acc (u # us))) =
      (truthy (fst acc') \<and> continueFlag push (chat_id (snd acc')) us (readableState (snd acc')))"
    using Cons.IH [of acc'] by (simp add: acc'_def)
  then show ?case
    unfolding chat flag rs processUpdate_truthy processUpdate_readable
    by (cases "surfaced (chat_id (snd acc)) u") auto
qed

lemma gotUpdates_unfold:
  "gotUpdates push data s =
     (let acc = foldl (processUpdate_reduce push) (RBool True, s\<lparr>inFlight := False\<rparr>) data
      in if truthy (fst acc) then (snd acc)\<lparr>trace := trace (snd acc) @ [SetTimeout 1000]\<rparr>
         else snd acc)"
  by (simp add: gotUpdates_def Let_def split: prod.splits)

lemma gotUpdates_trace:
  "trace (gotUpdates push data s) =
     trace s @ map (surfaced (chat_id s)) data
       @ (if continueFlag push (chat_id s) data (readableState s) then [SetTimeout 1000] else [])"
  by (simp add: gotUpdates_unfold Let_def fold_trace fold_flag)

lemma gotUpdates_offset:
  "updatesOffset (gotUpdates push data s) = foldl observe (updatesOffset s) (map update_id data)"
  by (simp add: gotUpdates_unfold Let_def fold_offset)

lemma gotUpdates_inFlight: "\<not> inFlight (gotUpdates push data s)"
  by (simp add: gotUpdates_unfold Let_def fold_inFlight)

lemma no_timer_surfaced: "SetTimeout n \<notin> set (map (surfaced c) data)"
  by (auto simp add: surfaced_def validate_def split: option.splits if_splits)

lemma continueFlag_rejected:
  "u \<in> set data \<Longrightarrow> rejected c u \<Longrightarrow> \<not> continueFlag push c data rs"
proof (induction data arbitrary: rs)
  case Nil
  then show ?case by simp
next
  case (Cons x xs)
  show ?case
  proof (cases "x = u")
    case True
    with Cons.prems(2) have "\<exists>e. surfaced c x = EmitError e"
      by (auto simp add: surfaced_def rejected_def split: sum.splits prod.splits)
    then show ?thesis by auto
  next
    case False
    with Cons.prems have "\<not> continueFlag push c xs rs'" for rs'
      using Cons.IH by simp
    then show ?thesis by (simp split: effect.splits)
  qed
qed

text \<open>
  C5: a batch that a fetch returns is processed update by update in the order of the
  array, each through the offset tracker and then the validator, none skipped after a
  push that signalled backpressure: the events appended are the ones of the updates, in
  order, and the offset is the tracker folded over the identifiers. The timer of 1000 ms
  that calls \<^verbatim>\<open>_read\<close> again is set if and only if the continue flag holds after the whole
  batch.
\<close>

theorem gotUpdates_batch:
  "trace (gotUpdates push data s) =
     trace s @ map (surfaced (chat_id s)) data
       @ (if continueFlag push (chat_id s) data (readableState s) then [SetTimeout 1000] else [])
   \<and> updatesOffset (gotUpdates push data s) =
       foldl observe (updatesOffset s) (map update_id data)
   \<and> \<not> inFlight (gotUpdates push data s)
   \<and> (SetTimeout 1000 \<in> set (drop (length (trace s)) (trace (gotUpdates push data s)))
        \<longleftrightarrow> continueFlag push (chat_id s) data (readableState s))"
proof -
  have "SetTimeout 1000 \<notin> set (map (surfaced (chat_id s)) data)"
    by (rule no_timer_surfaced)
  then show ?thesis
    by (simp add: gotUpdates_trace gotUpdates_offset gotUpdates_inFlight)
qed

theorem gotUpdates_batch_witness:
  "trace (gotUpdates buffer_push [text_update 3 42 ''a'', text_update 5 42 ''b'']
            (polling_instance\<lparr>readableState := \<lparr>highWaterMark = 1, length_rs = 0, ended = False\<rparr>\<rparr>))
     = [Push (Some ''a''), Push (Some ''b'')]
   \<and> updatesOffset (gotUpdates buffer_push [text_update 3 42 ''a'', text_update 5 42 ''b'']
            (polling_instance\<lparr>readableState := \<lparr>highWaterMark = 1, length_rs = 0, ended = False\<rparr>\<rparr>))
     = 6
   \<and> trace (gotUpdates buffer_push [text_update 3 42 ''a'', text_update 5 42 ''b'']
            polling_instance)
     = [Push (Some ''a''), Push (Some ''b''), SetTimeout 1000]"
  using gotUpdates_batch [of buffer_push "[text_update 3 42 ''a'', text_update 5 42 ''b'']"
      "polling_instance\<lparr>readableState := \<lparr>highWaterMark = 1, length_rs = 0, ended = False\<rparr>\<rparr>"]
    gotUpdates_batch [of buffer_push "[text_update 3 42 ''a'', text_update 5 42 ''b'']"
      polling_instance]
  by (simp add: polling_instance_def text_update_def surfaced_def validate_def observe_def
        number_add_exact buffer_push_def default_readable_def)

text \<open>
  C10: in a batch that holds a rejected update (no message, another chat, or no text)
  the error path of \<^verbatim>\<open>processUpdate\<close> returns no value, the reduced flag is falsy, and the
  timer of 1000 ms is not set after the batch, whatever the other updates did.
\<close>

theorem rejected_update_stops_refetch:
  assumes "u \<in> set data" and "rejected (chat_id s) u"
  shows "snd (processUpdate push u s) = RUndefined
     \<and> SetTimeout 1000 \<notin> set (drop (length (trace s)) (trace (gotUpdates push data s)))
     \<and> trace (gotUpdates push data s) = trace s @ map (surfaced (chat_id s)) data"
proof -
  have "\<not> continueFlag push (chat_id s) data (readableState s)"
    using assms by (rule continueFlag_rejected)
  moreover have "SetTimeout 1000 \<notin> set (map (surfaced (chat_id s)) data)"
    by (rule no_timer_surfaced)
  ultimately show ?thesis
    using assms(2) by (simp add: gotUpdates_trace processUpdate_rejected)
qed

theorem rejected_update_stops_refetch_witness:
  "photo_update 2 42 \<in> set [text_update 1 42 ''a'', photo_update 2 42, text_update 3 42 ''b'']
   \<and> rejected (chat_id polling_instance) (photo_update 2 42)
   \<and> trace (gotUpdates buffer_push
        [text_update 1 42 ''a'', photo_update 2 42, text_update 3 42 ''b''] polling_instance)
     = [Push (Some ''a''),
        EmitError (Error ''Only text messages are supported''
          (DataMessage \<lparr>msg_chat_id = IdNum 42, msg_text = None\<rparr>)),
        Push (Some ''b'')]"
proof -
  have a: "photo_update 2 42
      \<in> set [text_update 1 42 ''a'', photo_update 2 42, text_update 3 42 ''b'']"
    by simp
  have b: "rejected (chat_id polling_instance) (photo_update 2 42)"
    by (simp add: rejected_def validate_def photo_update_def polling_instance_def)
  show ?thesis
    using a b rejected_update_stops_refetch [OF a b, of buffer_push]
    by (simp add: polling_instance_def text_update_def photo_update_def surfaced_def
          validate_def)
qed

section \<open>The offset over the life of an instance\<close>

lemma TelegramLog_offset: "TelegramLog rs0 token chat opts = Inr s \<Longrightarrow> updatesOffset s = 0"
  by (auto simp add: TelegramLog_def Let_def
        split: first_arg.splits option.splits if_splits prod.splits)

lemma TelegramLog_polling_instance:
  "TelegramLog default_readable (Token ''token'') (Some (IdNum 42)) None = Inr polling_instance"
  by (simp add: TelegramLog_def polling_instance_def)

lemma TelegramLog_webhook_instance:
  "TelegramLog default_readable (Token ''token'') (Some (IdNum 42))
     (Some \<lparr>webhook_opt = Some (WebhookNumber 8443), certificate_opt = None\<rparr>)
   = Inr webhook_instance"
  by (simp add: TelegramLog_def webhook_instance_def certificate_of_def)

lemma end_push_offset: "updatesOffset (end_push push s) = updatesOffset s"
  by (simp add: end_push_def self_push_def split: prod.splits)

lemma settle_offset: "updatesOffset (settle push s) = updatesOffset s"
  by (simp add: settle_def end_push_offset)

lemma step_offset:
  "updatesOffset (step push s ev) = foldl observe (updatesOffset s) (map update_id (observed ev))"
proof (cases ev)
  case (FetchResolved data)
  then show ?thesis by (simp add: fetch_resolved_def settle_offset gotUpdates_offset)
next
  case (FetchRejected err)
  then show ?thesis by (simp add: fetch_rejected_def settle_offset onError_def emit_def)
next
  case (RegistrationRejected err)
  then show ?thesis by (simp add: on_open_catch_def end_push_offset emit_def)
next
  case (ListenerData update)
  then show ?thesis by (simp add: on_data_def processUpdate_offset observe_def)
next
  case ListenerEnd
  then show ?thesis by (simp add: on_end_def end_push_offset)
next
  case EndUnregistrationSettled
  then show ?thesis by (simp add: end_push_offset)
next
  case PromiseJob
  then show ?thesis by (simp add: promise_job_def settle_offset)
qed (simp_all add: tl_read_def Let_def on_open_def emit_def closeWebhook_def tl_write_def
       send_settled_def tl_close_def)

lemma run_offset:
  "updatesOffset (run push s evs) =
     foldl observe (updatesOffset s) (map update_id (concat (map observed evs)))"
  unfolding run_def
  by (induction evs arbitrary: s) (simp_all add: step_offset)

lemma observe_ge: "0 \<le> i \<Longrightarrow> representable i \<Longrightarrow> offset \<le> observe offset i"
  using representable_add_one [of i] by (simp add: observe_def)

lemma observe_mono:
  "\<forall>i \<in> set ids. 0 \<le> i \<and> representable i \<Longrightarrow> offset \<le> foldl observe offset ids"
proof (induction ids arbitrary: offset)
  case Nil
  show ?case by simp
next
  case (Cons i ids)
  have "offset \<le> observe offset i"
    using Cons.prems by (simp add: observe_ge)
  also have "\<dots> \<le> foldl observe (observe offset i) ids"
    using Cons.prems by (intro Cons.IH) simp
  finally show ?case by simp
qed

lemma observe_max:
  assumes "ids \<noteq> []" and "\<forall>i \<in> set ids. 0 \<le> i \<and> i < 9007199254740992"
  shows "foldl observe offset ids = max offset (Max (set ids) + 1)"
  using assms
proof (induction ids arbitrary: offset)
  case Nil
  then show ?case by simp
next
  case (Cons i ids)
  have "number_add i 1 = i + 1"
    using Cons.prems(2) by (intro number_add_exact) simp_all
  then have one: "observe offset i = max offset (i + 1)"
    by (simp add: observe_def)
  show ?case
  proof (cases "ids = []")
    case True
    then show ?thesis by (simp add: one)
  next
    case False
    moreover have "\<forall>i \<in> set ids. 0 \<le> i \<and> i < 9007199254740992"
      using Cons.prems(2) by simp
    ultimately have rest: "foldl observe (observe offset i) ids
        = max (observe offset i) (Max (set ids) + 1)"
      by (rule Cons.IH)
    have top: "Max (set (i # ids)) = max i (Max (set ids))"
      using False by simp
    have "foldl observe offset (i # ids) = max (max offset (i + 1)) (Max (set ids) + 1)"
      using rest by (simp add: one)
    also have "\<dots> = max offset (Max (set (i # ids)) + 1)"
      using top by linarith
    finally show ?thesis .
  qed
qed

text \<open>
  C2 as stated fails at the identifier \<open>2 ^ 53\<close>, which is at least 0: the sum of
  \<open>2 ^ 53\<close> and 1 is \<open>2 ^ 53\<close> again, so after this update the offset is the largest
  identifier itself and not the largest identifier plus one.
\<close>

theorem offset_stalls_at_limit:
  "0 \<le> update_id (text_update 9007199254740992 42 ''hi'')
   \<and> updatesOffset (run buffer_push polling_instance
        [CallRead, FetchResolved [text_update 9007199254740992 42 ''hi'']])
      = 9007199254740992
   \<and> Max (update_id ` set (concat (map observed
        [CallRead, FetchResolved [text_update 9007199254740992 42 ''hi'']]))) + 1
      = 9007199254740993"
  by (simp add: run_offset observe_def number_add_limit text_update_def polling_instance_def)

text \<open>
  C2, amended: the offset of a new instance is 0; no input lowers it when the
  identifiers it delivers are integers of at least 0 that numbers can hold; and after
  any sequence of inputs whose updates have identifiers of at least 0 and below
  \<open>2 ^ 53\<close> it is the largest identifier delivered plus one (0 when no update was
  delivered), whatever the validator made of each update: the updates are arbitrary,
  with or without message, chat or text.
\<close>

theorem offset_is_max_plus_one:
  assumes "TelegramLog rs0 token chat opts = Inr s0"
    and "\<forall>u \<in> set (concat (map observed evs)).
           0 \<le> update_id u \<and> update_id u < 9007199254740992"
  shows "updatesOffset s0 = 0
     \<and> (\<forall>s ev. (\<forall>u \<in> set (observed ev). 0 \<le> update_id u \<and> representable (update_id u))
           \<longrightarrow> updatesOffset s \<le> updatesOffset (step push s ev))
     \<and> updatesOffset (run push s0 evs) =
         (if concat (map observed evs) = [] then 0
          else Max (update_id ` set (concat (map observed evs))) + 1)"
proof -
  define us where "us = concat (map observed evs)"
  have start: "updatesOffset s0 = 0"
    using assms(1) by (rule TelegramLog_offset)
  have mono: "\<forall>s ev. (\<forall>u \<in> set (observed ev). 0 \<le> update_id u \<and> representable (update_id u))
      \<longrightarrow> updatesOffset s \<le> updatesOffset (step push s ev)"
    by (simp add: step_offset observe_mono)
  have final: "updatesOffset (run push s0 evs) = foldl observe 0 (map update_id us)"
    by (simp add: run_offset start us_def)
  have bounds: "\<forall>i \<in> set (map update_id us). 0 \<le> i \<and> i < 9007199254740992"
    using assms(2) by (simp add: us_def)
  have "foldl observe 0 (map update_id us) =
      (if us = [] then 0 else Max (update_id ` set us) + 1)"
  proof (cases "us = []")
    case True
    then show ?thesis by simp
  next
    case False
    then have "map update_id us \<noteq> []" by simp
    then have "foldl observe 0 (map update_id us) = max 0 (Max (set (map update_id us)) + 1)"
      using bounds by (rule observe_max)
    moreover have "0 \<le> Max (set (map update_id us))"
    proof -
      obtain u where u: "u \<in> set us"
        using False by (meson last_in_set)
      then have "update_id u \<le> Max (set (map update_id us))"
        by simp
      moreover have "0 \<le> update_id u"
        using u bounds by simp
      ultimately show ?thesis by linarith
    qed
    ultimately show ?thesis using False by simp
  qed
  then show ?thesis
    using start mono final unfolding us_def by simp
qed

theorem offset_is_max_plus_one_witness:
  "TelegramLog default_readable (Token ''token'') (Some (IdNum 42)) None = Inr polling_instance
   \<and> map update_id (concat (map observed
          [CallRead, FetchResolved [text_update 1 42 ''hi'', inline_update 7, photo_update 3 9]]))
      = [1, 7, 3]
   \<and> representable 7
   \<and> updatesOffset polling_instance
      \<le> updatesOffset (step buffer_push polling_instance (ListenerData (inline_update 7)))
   \<and> updatesOffset (run buffer_push polling_instance
        [CallRead, FetchResolved [text_update 1 42 ''hi'', inline_update 7, photo_update 3 9]])
     = 8"
proof -
  have a: "TelegramLog default_readable (Token ''token'') (Some (IdNum 42)) None
      = Inr polling_instance"
    by (rule TelegramLog_polling_instance)
  have b: "\<forall>u \<in> set (concat (map observed
      [CallRead, FetchResolved [text_update 1 42 ''hi'', inline_update 7, photo_update 3 9]])).
      0 \<le> update_id u \<and> update_id u < 9007199254740992"
    by (simp add: text_update_def inline_update_def photo_update_def)
  have c: "representable 7"
    by (simp add: representable_small)
  have d: "\<forall>u \<in> set (observed (ListenerData (inline_update 7))).
      0 \<le> update_id u \<and> representable (update_id u)"
    using c by (simp add: inline_update_def)
  have "updatesOffset polling_instance
      \<le> updatesOffset (step buffer_push polling_instance (ListenerData (inline_update 7)))"
    using offset_is_max_plus_one [OF a b, of buffer_push] d by blast
  then show ?thesis
    using a b c offset_is_max_plus_one [OF a b, of buffer_push]
    by (simp add: text_update_def inline_update_def photo_update_def)
qed

section \<open>The pull hook \<^verbatim>\<open>_read\<close>\<close>

lemma processUpdate_webhook: "webhook (fst (processUpdate push u s)) = webhook s"
  by (simp add: processUpdate_defs split: option.splits prod.splits)

lemma fold_webhook:
  "webhook (snd (foldl (processUpdate_reduce push) acc data)) = webhook (snd acc)"
  by (induction data arbitrary: acc) (simp_all add: reduce_step processUpdate_webhook)

lemma gotUpdates_webhook: "webhook (gotUpdates push data s) = webhook s"
  by (simp add: gotUpdates_unfold Let_def fold_webhook)

lemma end_push_webhook: "webhook (end_push push s) = webhook s"
  by (simp add: end_push_def self_push_def split: prod.splits)

lemma settle_webhook: "webhook (settle push s) = webhook s"
  by (simp add: settle_def end_push_webhook)

text \<open>An instance in webhook mode stays in webhook mode.\<close>

lemma mode_webhook_fixed: "mode s = Webhook \<Longrightarrow> mode (step push s ev) = Webhook"
  by (cases ev)
     (auto simp add: mode_def tl_read_def Let_def fetch_resolved_def fetch_rejected_def
        settle_webhook gotUpdates_webhook onError_def emit_def on_open_def on_open_catch_def
        end_push_webhook on_data_def processUpdate_webhook on_end_def closeWebhook_def
        tl_write_def send_settled_def tl_close_def promise_job_def
        split: if_splits)

text \<open>
  C4: \<^verbatim>\<open>_read\<close> does nothing when a fetch is in flight, when the free capacity of the
  read buffer (the mark minus the buffered length) is zero, when the stream has ended or
  was stopped, or in webhook mode; otherwise it raises the in-flight flag and makes
  exactly one call of \<^verbatim>\<open>getUpdates\<close>, with the current offset, the free capacity as limit,
  and timeout 0.
\<close>

theorem read_requests_more:
  "(inFlight s \<or> free_capacity s = 0 \<or> stopped s \<or> mode s = Webhook \<longrightarrow> tl_read s = s)
   \<and> (\<not> inFlight s \<and> free_capacity s \<noteq> 0 \<and> \<not> stopped s \<and> mode s = Polling \<longrightarrow>
        tl_read s =
          s\<lparr>inFlight := True, polling := PPromise,
            trace := trace s @ [GetUpdates (updatesOffset s) (free_capacity s) 0]\<rparr>)"
  by (simp add: tl_read_def free_capacity_def stopped_def mode_def Let_def)

theorem read_requests_more_witness:
  "\<not> inFlight polling_instance \<and> free_capacity polling_instance \<noteq> 0
   \<and> \<not> stopped polling_instance \<and> mode polling_instance = Polling
   \<and> trace (tl_read polling_instance) = [GetUpdates 0 16 0]
   \<and> inFlight (tl_read polling_instance)
   \<and> mode webhook_instance = Webhook
   \<and> tl_read webhook_instance = webhook_instance
   \<and> tl_read (tl_read polling_instance) = tl_read polling_instance"
  using read_requests_more [of polling_instance] read_requests_more [of webhook_instance]
    read_requests_more [of "tl_read polling_instance"]
  by (simp add: polling_instance_def webhook_instance_def free_capacity_def stopped_def
        mode_def default_readable_def)

section \<open>Stale updates on the two transports\<close>

text \<open>The listener's handler drops an update whose identifier is below the offset.\<close>

lemma on_data_stale: "update_id u < updatesOffset s \<Longrightarrow> on_data push u s = s"
  by (simp add: on_data_def)

text \<open>
  \<^verbatim>\<open>gotUpdates\<close> has no such test, and \<^verbatim>\<open>processUpdate\<close> only keeps a stale update from
  moving the offset: the update is validated and surfaced all the same.
\<close>

lemma processUpdate_stale:
  "update_id u < updatesOffset s \<Longrightarrow>
     updatesOffset (fst (processUpdate push u s)) = updatesOffset s
     \<and> trace (fst (processUpdate push u s)) = trace s @ [surfaced (chat_id s) u]"
  by (simp add: processUpdate_offset processUpdate_trace observe_def)

text \<open>
  C1, on the polling transport: the batch of the scenario, two updates with identifier 1
  for chat 42, the second one stale when its turn comes. The instance pushes both texts
  and the offset ends at 2.
\<close>

theorem polling_batch_replays_duplicate:
  "update_id (text_update 1 42 ''dup'')
     < updatesOffset (fst (processUpdate push (text_update 1 42 ''hi'') polling_instance))
   \<and> data_events (trace (gotUpdates push
        [text_update 1 42 ''hi'', text_update 1 42 ''dup''] polling_instance))
      = [''hi'', ''dup'']
   \<and> error_events (trace (gotUpdates push
        [text_update 1 42 ''hi'', text_update 1 42 ''dup''] polling_instance))
      = []
   \<and> updatesOffset (gotUpdates push
        [text_update 1 42 ''hi'', text_update 1 42 ''dup''] polling_instance)
      = 2"
  by (simp add: gotUpdates_trace gotUpdates_offset processUpdate_offset observe_def
        number_add_exact surfaced_def validate_def text_update_def polling_instance_def)

section \<open>Closing\<close>

lemma end_push_trace: "trace (end_push push s) = trace s @ [Push None]"
  by (simp add: end_push_def self_push_def split: prod.splits)

lemma processUpdate_endOnSettle: "endOnSettle (fst (processUpdate push u s)) = endOnSettle s"
  by (simp add: processUpdate_defs split: option.splits prod.splits)

lemma fold_endOnSettle:
  "endOnSettle (snd (foldl (processUpdate_reduce push) acc data)) = endOnSettle (snd acc)"
  by (induction data arbitrary: acc) (simp_all add: reduce_step processUpdate_endOnSettle)

lemma gotUpdates_endOnSettle: "endOnSettle (gotUpdates push data s) = endOnSettle s"
  by (simp add: gotUpdates_unfold Let_def fold_endOnSettle)

text \<open>
  In polling mode, with the promise of a fetch in \<^verbatim>\<open>polling\<close>: \<^verbatim>\<open>close\<close> signals
  nothing itself. During the fetch, the end of the data follows the settling of the
  fetch, after the batch or the error; after the fetch, it is signalled by the promise
  job that follows \<^verbatim>\<open>close\<close>.
\<close>

lemma close_during_fetch:
  assumes "webhook s = WUndefined" and "polling s = PPromise" and "inFlight s"
  shows "trace (tl_close s) = trace s"
    and "trace (promise_job push (tl_close s)) = trace s"
    and "trace (fetch_resolved push data (tl_close s))
           = trace (gotUpdates push data s) @ [Push None]"
    and "trace (fetch_rejected push err (tl_close s))
           = trace s @ [EmitError err, Push None]"
  using assms
  by (simp_all add: tl_close_def promise_job_def fetch_resolved_def fetch_rejected_def
        settle_def gotUpdates_endOnSettle end_push_trace gotUpdates_trace onError_def emit_def)

lemma close_after_fetch:
  assumes "webhook s = WUndefined" and "polling s = PPromise" and "\<not> inFlight s"
  shows "trace (tl_close s) = trace s"
    and "trace (promise_job push (tl_close s)) = trace s @ [Push None]"
  using assms
  by (simp_all add: tl_close_def promise_job_def settle_def end_push_trace)

text \<open>
  C6, on an instance that has not fetched yet: \<^verbatim>\<open>polling\<close> is still undefined, so
  \<^verbatim>\<open>close\<close> in polling mode with no fetch in flight changes nothing. The end of the data
  is not signalled, and the next \<^verbatim>\<open>_read\<close> fetches as if \<^verbatim>\<open>close\<close> had not been called.
\<close>

theorem close_before_first_fetch:
  "mode polling_instance = Polling
   \<and> \<not> inFlight polling_instance
   \<and> tl_close polling_instance = polling_instance
   \<and> Push None \<notin> set (trace (tl_close polling_instance))
   \<and> trace (tl_read (tl_close polling_instance)) = [GetUpdates 0 16 0]"
  by (simp add: tl_close_def tl_read_def mode_def polling_instance_def default_readable_def)

text \<open>\<^verbatim>\<open>close\<close> on an instance that is fully closed changes nothing.\<close>

lemma close_when_closed:
  "webhook s = WNull \<Longrightarrow> tl_close s = s"
  "webhook s = WUndefined \<Longrightarrow> polling s = PNull \<Longrightarrow> tl_close s = s"
  by (simp_all add: tl_close_def)

text \<open>
  C7, in webhook mode: the variable \<^verbatim>\<open>webhook\<close> becomes \<^verbatim>\<open>null\<close> only when the call that
  unregisters has settled. Two calls of \<^verbatim>\<open>close\<close> in a row both find the listener and
  both call \<^verbatim>\<open>setWebhook\<close>; when the two calls settle, \<^verbatim>\<open>closeWebhook\<close> runs twice, the
  second time on \<^verbatim>\<open>null\<close>.
\<close>

theorem close_twice_unregisters_twice:
  "mode webhook_instance = Webhook
   \<and> trace (run push webhook_instance [CallClose, CallClose])
      = [CreateListener, SetWebhook None (Some []), SetWebhook None (Some [])]
   \<and> trace (run push webhook_instance
        [CallClose, CallClose, CloseUnregistrationSettled, CloseUnregistrationSettled])
      = [CreateListener, SetWebhook None (Some []), SetWebhook None (Some []),
         ListenerClose, ThrownTypeError]"
  by (simp add: run_def tl_close_def closeWebhook_def mode_def webhook_instance_def)

section \<open>Construction\<close>

text \<open>
  What the constructor rejects: a missing first argument, a falsy token, a falsy chat,
  and a truthy webhook that is not a string and whose \<^verbatim>\<open>port || webhook\<close> is not one of
  the four numbers. A rejected construction returns no instance, hence has called no
  collaborator.
\<close>

lemma construction_missing:
  "TelegramLog rs0 NoArgument chat opts = Inl TypeErrorThrown"
  "TelegramLog rs0 (Token []) chat opts = Inl MissingToken"
  "t \<noteq> [] \<Longrightarrow> \<not> truthy_chat chat \<Longrightarrow> TelegramLog rs0 (Token t) chat opts = Inl MissingChatId"
  by (simp_all add: TelegramLog_def)

lemma construction_numeric_port:
  assumes "t \<noteq> []" and "truthy_chat (Some c)" and "n \<noteq> 0"
  shows "(\<exists>e. TelegramLog rs0 (Token t) (Some c)
            (Some \<lparr>webhook_opt = Some (WebhookNumber n), certificate_opt = cert\<rparr>) = Inl e)
         \<longleftrightarrow> n \<notin> {80, 88, 443, 8443}"
  using assms by (simp add: TelegramLog_def)

lemma construction_port_8080:
  "TelegramLog default_readable (Token ''token'') (Some (IdNum 42))
     (Some \<lparr>webhook_opt = Some (WebhookNumber 8080), certificate_opt = None\<rparr>)
   = Inl (PortRangeError (PortNumber 8080))"
  by (simp add: TelegramLog_def)

text \<open>
  C8, for a webhook given as an object without \<^verbatim>\<open>port\<close> (the documented form with only
  a host name): token and chat are present and no numeric port is configured, yet
  \<^verbatim>\<open>webhook.port || webhook\<close> is the object itself, which is none of the four numbers, and
  the constructor throws the range error.
\<close>

theorem portless_webhook_object_rejected:
  "port host_only = None
   \<and> TelegramLog default_readable (Token ''token'') (Some (IdNum 42))
       (Some \<lparr>webhook_opt = Some (WebhookObject host_only), certificate_opt = None\<rparr>)
     = Inl (PortRangeError (PortObject host_only))"
  by (simp add: TelegramLog_def host_only_def)

section \<open>Writing\<close>

text \<open>
  The parts of the claim on writes that hold: null, undefined and the empty string
  complete the write at once, without a call of \<^verbatim>\<open>sendMessage\<close>; a non-empty string
  causes exactly one call, with the configured chat and the JSON text of the payload,
  and the write completes when the call settles, with its outcome.
\<close>

lemma write_nothing:
  "tl_write JNull s = s\<lparr>trace := trace s @ [Done None]\<rparr>"
  "tl_write JUndefined s = s\<lparr>trace := trace s @ [Done None]\<rparr>"
  "tl_write (JStr []) s = s\<lparr>trace := trace s @ [Done None]\<rparr>"
  by (simp_all add: tl_write_def)

lemma write_string:
  assumes "t \<noteq> []"
  shows "tl_write (JStr t) s
           = s\<lparr>trace := trace s @ [SendMessage (chat_id s) (JSON_stringify (JStr t))]\<rparr>"
    and "trace (send_settled outcome (tl_write (JStr t) s))
           = trace s @ [SendMessage (chat_id s) (JSON_stringify (JStr t)), Done outcome]"
  using assms by (simp_all add: tl_write_def send_settled_def)

text \<open>
  The values that \<^verbatim>\<open>== ''\<close> accepts next to the empty string, and an object on which the
  comparison throws.
\<close>

lemma loosely_empty_values:
  "loose_eq_empty (JNum 0)" "loose_eq_empty (JBool False)"
  "loose_eq_empty (JArr [])" "loose_eq_empty (JArr [JArr []])" "loose_eq_empty (JArr [JNull])"
  "\<not> loose_eq_empty (JObj kvs)" "\<not> loose_eq_empty (JBool True)"
  "n \<noteq> 0 \<Longrightarrow> \<not> loose_eq_empty (JNum n)" "t \<noteq> [] \<Longrightarrow> \<not> loose_eq_empty (JStr t)"
  by simp_all

lemma write_throws:
  "trace (tl_write (JObj [(''toString'', JNum 1)]) s) = trace s @ [ThrownTypeError]"
  by (simp add: tl_write_def)

text \<open>
  C9, on the number 0: it is neither null, nor absent, nor the empty string, yet
  \<^verbatim>\<open>0 == ''\<close> holds, and the write completes at once without a call of \<^verbatim>\<open>sendMessage\<close>.
\<close>

theorem write_zero_sends_nothing:
  "JNum 0 \<noteq> JNull \<and> JNum 0 \<noteq> JUndefined \<and> JNum 0 \<noteq> JStr []
   \<and> trace (tl_write (JNum 0) polling_instance) = [Done None]"
  by (simp add: tl_write_def polling_instance_def)

end
